theory Spec2Isabelle
  imports Complex_Main "HOL-Library.AList"
begin

section \<open>Values of the program\<close>

text \<open>
  The program is \<^verbatim>\<open>src/app.py\<close>. Its numbers are Python floats. A float is modelled
  as a finite rational or one of the three special values; arithmetic on finite values
  is exact (no binary rounding, no overflow to infinity), the special values follow
  IEEE 754 as Python exposes it. A signed zero is not distinguished: Python compares
  \<^verbatim>\<open>-0.0 == 0.0\<close> as true and the program never divides by it unguarded.
\<close>

datatype fl = Fin rat | PInf | NInf | NaN

fun fl_neg :: "fl \<Rightarrow> fl" where
  "fl_neg (Fin a) = Fin (- a)"
| "fl_neg PInf = NInf"
| "fl_neg NInf = PInf"
| "fl_neg NaN = NaN"

fun fl_abs :: "fl \<Rightarrow> fl" where
  "fl_abs (Fin a) = Fin \<bar>a\<bar>"
| "fl_abs PInf = PInf"
| "fl_abs NInf = PInf"
| "fl_abs NaN = NaN"

fun fl_add :: "fl \<Rightarrow> fl \<Rightarrow> fl" where
  "fl_add NaN _ = NaN"
| "fl_add _ NaN = NaN"
| "fl_add (Fin a) (Fin b) = Fin (a + b)"
| "fl_add PInf NInf = NaN"
| "fl_add NInf PInf = NaN"
| "fl_add PInf _ = PInf"
| "fl_add _ PInf = PInf"
| "fl_add NInf _ = NInf"
| "fl_add _ NInf = NInf"

definition fl_sub :: "fl \<Rightarrow> fl \<Rightarrow> fl" where
  "fl_sub a b = fl_add a (fl_neg b)"

text \<open>The sign of a value: 1, 0 or -1; NaN has none.\<close>

fun fl_sgn :: "fl \<Rightarrow> int option" where
  "fl_sgn (Fin a) = Some (if a < 0 then - 1 else if a = 0 then 0 else 1)"
| "fl_sgn PInf = Some 1"
| "fl_sgn NInf = Some (- 1)"
| "fl_sgn NaN = None"

definition inf_of_sign :: "int \<Rightarrow> fl" where
  "inf_of_sign s = (if s = 0 then NaN else if s < 0 then NInf else PInf)"

fun fl_mul :: "fl \<Rightarrow> fl \<Rightarrow> fl" where
  "fl_mul (Fin a) (Fin b) = Fin (a * b)"
| "fl_mul x y =
     (case (fl_sgn x, fl_sgn y) of
        (Some s, Some t) \<Rightarrow> inf_of_sign (s * t)
      | _ \<Rightarrow> NaN)"

text \<open>Python's float division raises ZeroDivisionError on a zero divisor: \<open>None\<close>.\<close>

fun fl_div :: "fl \<Rightarrow> fl \<Rightarrow> fl option" where
  "fl_div x (Fin b) =
     (if b = 0 then None
      else (case x of
              Fin a \<Rightarrow> Some (Fin (a / b))
            | NaN \<Rightarrow> Some NaN
            | _ \<Rightarrow> (case fl_sgn x of
                      Some s \<Rightarrow> Some (inf_of_sign (s * (if b < 0 then - 1 else 1)))
                    | None \<Rightarrow> Some NaN)))"
| "fl_div (Fin a) PInf = Some (Fin 0)"
| "fl_div (Fin a) NInf = Some (Fin 0)"
| "fl_div _ _ = Some NaN"

fun fl_lt :: "fl \<Rightarrow> fl \<Rightarrow> bool" where
  "fl_lt NaN _ = False"
| "fl_lt _ NaN = False"
| "fl_lt (Fin a) (Fin b) = (a < b)"
| "fl_lt _ NInf = False"
| "fl_lt PInf _ = False"
| "fl_lt NInf _ = True"
| "fl_lt _ PInf = True"

fun fl_le :: "fl \<Rightarrow> fl \<Rightarrow> bool" where
  "fl_le NaN _ = False"
| "fl_le _ NaN = False"
| "fl_le (Fin a) (Fin b) = (a \<le> b)"
| "fl_le NInf _ = True"
| "fl_le _ PInf = True"
| "fl_le _ NInf = False"
| "fl_le PInf _ = False"

text \<open>\<^verbatim>\<open>max(a, b)\<close> of Python keeps its first argument unless the second is greater.\<close>

definition py_max :: "fl \<Rightarrow> fl \<Rightarrow> fl" where
  "py_max a b = (if fl_lt a b then b else a)"

text \<open>
  A raw record of the exchange is a JSON object: a dictionary from field names to
  arbitrary JSON values, as \<^verbatim>\<open>r.json()\<close> delivers it (Python's parser accepts the
  literals \<^verbatim>\<open>NaN\<close> and \<^verbatim>\<open>Infinity\<close>).
\<close>

datatype json =
    JNull
  | JBool bool
  | JInt int
  | JFloat fl
  | JStr string
  | JArr "json list"
  | JObj "(string \<times> json) list"

type_synonym raw = "(string \<times> json) list"

text \<open>Python truthiness, which decides every \<^verbatim>\<open>a or b\<close> of the source.\<close>

fun truthy :: "json \<Rightarrow> bool" where
  "truthy JNull = False"
| "truthy (JBool b) = b"
| "truthy (JInt i) = (i \<noteq> 0)"
| "truthy (JFloat x) = (x \<noteq> Fin 0)"
| "truthy (JStr s) = (s \<noteq> [])"
| "truthy (JArr xs) = (xs \<noteq> [])"
| "truthy (JObj kvs) = (kvs \<noteq> [])"

text \<open>\<^verbatim>\<open>it.get(k)\<close>: the value, or None for a missing key.\<close>

definition dget :: "raw \<Rightarrow> string \<Rightarrow> json" where
  "dget it k = (case map_of it k of None \<Rightarrow> JNull | Some v \<Rightarrow> v)"

text \<open>
  \<^verbatim>\<open>a or b or ... or d\<close>: the first truthy operand, and the last operand when none is.
\<close>

fun or_chain :: "json list \<Rightarrow> json \<Rightarrow> json" where
  "or_chain [] d = d"
| "or_chain (x # xs) d = (if truthy x then x else or_chain xs d)"

subsection \<open>Strings\<close>

text \<open>
  A string is a list of characters, each a code point below 256. The whitespace that
  \<^verbatim>\<open>str.strip()\<close> removes is, in that range, the code points 9 to 13, 28 to 32, 133
  and 160.
\<close>

definition is_space :: "char \<Rightarrow> bool" where
  "is_space c = (let n = of_char c :: nat in
     (9 \<le> n \<and> n \<le> 13) \<or> (28 \<le> n \<and> n \<le> 32) \<or> n = 133 \<or> n = 160)"

definition strip :: "string \<Rightarrow> string" where
  "strip s = rev (dropWhile is_space (rev (dropWhile is_space s)))"

definition is_alnum :: "char \<Rightarrow> bool" where
  "is_alnum c = (let n = of_char c :: nat in
     (48 \<le> n \<and> n \<le> 57) \<or> (65 \<le> n \<and> n \<le> 90) \<or> (97 \<le> n \<and> n \<le> 122))"

text \<open>
  \<^verbatim>\<open>upper\<close> is only applied after the non-alphanumeric characters are removed, so
  it is the ASCII one. \<^verbatim>\<open>lower\<close> also maps the capital letters of Latin-1
  (192 to 222 except 215) to their small forms.
\<close>

definition upper_char :: "char \<Rightarrow> char" where
  "upper_char c = (let n = of_char c :: nat in
     if 97 \<le> n \<and> n \<le> 122 then char_of (n - 32) else c)"

definition lower_char :: "char \<Rightarrow> char" where
  "lower_char c = (let n = of_char c :: nat in
     if (65 \<le> n \<and> n \<le> 90) \<or> (192 \<le> n \<and> n \<le> 222 \<and> n \<noteq> 215) then char_of (n + 32) else c)"

definition lower :: "string \<Rightarrow> string" where
  "lower s = map lower_char s"

fun starts_with :: "string \<Rightarrow> string \<Rightarrow> bool" where
  "starts_with [] ys = True"
| "starts_with (x # xs) [] = False"
| "starts_with (x # xs) (y # ys) = (x = y \<and> starts_with xs ys)"

text \<open>\<^verbatim>\<open>a in b\<close> on strings: \<open>a\<close> occurs in \<open>b\<close> as a contiguous substring.\<close>

fun str_in :: "string \<Rightarrow> string \<Rightarrow> bool" where
  "str_in xs [] = (xs = [])"
| "str_in xs (y # ys) = (starts_with xs (y # ys) \<or> str_in xs ys)"

subsection \<open>The environment of the program\<close>

text \<open>
  What the program takes from its libraries, its configuration and the network:
  \<^item> \<open>float_of_str\<close>: Python's \<^verbatim>\<open>float()\<close> on a string, \<open>None\<close> when it raises;
  \<^item> \<open>str_of\<close>: Python's \<^verbatim>\<open>str()\<close> on a value that is not a string;
  \<^item> \<open>upper_of\<close>: Python's \<^verbatim>\<open>str.upper()\<close> on an arbitrary string (it leaves the range
    of code points below 256, so it is not written out);
  \<^item> \<open>fetch_income\<close>: the settlement records the exchange returns for a symbol and a
    window in milliseconds (the function \<^verbatim>\<open>fetch_income\<close>, a network call);
  \<^item> \<open>TAKER_FEE_RATE\<close>: the configured fee rate;
  \<^item> \<open>available\<close>: whether the n-th command sent to the key-value store succeeds
    (\<^verbatim>\<open>Redis.cmd\<close> returns None on every failure).
\<close>

record env =
  float_of_str :: "string \<Rightarrow> fl option"
  str_of :: "json \<Rightarrow> string"
  upper_of :: "string \<Rightarrow> string"
  fetch_income :: "string \<Rightarrow> int \<Rightarrow> int \<Rightarrow> raw list"
  TAKER_FEE_RATE :: fl
  available :: "nat \<Rightarrow> bool"

text \<open>\<^verbatim>\<open>str(v)\<close>.\<close>

definition py_str :: "env \<Rightarrow> json \<Rightarrow> string" where
  "py_str e v = (case v of JStr s \<Rightarrow> s | _ \<Rightarrow> str_of e v)"

text \<open>
  \<^verbatim>\<open>asf(v, d)\<close>: None and booleans give the default; otherwise
  \<^verbatim>\<open>float(str(v).replace(",", "").strip())\<close>, and the default when that raises. The
  text of a number parses back to the number; the text of a list or of a dictionary
  starts with a bracket and never parses.
\<close>

fun asf :: "env \<Rightarrow> json \<Rightarrow> fl \<Rightarrow> fl" where
  "asf e JNull d = d"
| "asf e (JBool b) d = d"
| "asf e (JInt i) d = Fin (of_int i)"
| "asf e (JFloat x) d = x"
| "asf e (JStr s) d =
     (case float_of_str e (strip (filter (\<lambda>c. c \<noteq> CHR '','') s)) of
        None \<Rightarrow> d
      | Some x \<Rightarrow> x)"
| "asf e (JArr xs) d = d"
| "asf e (JObj kvs) d = d"

section \<open>Settlement Reconciler\<close>

text \<open>
  \<^verbatim>\<open>_income_split\<close>. The symbol of a record, and the normal form
  \<^verbatim>\<open>re.sub(r"[^A-Za-z0-9]", "", s).upper()\<close> of a symbol.
\<close>

definition rec_sym :: "env \<Rightarrow> raw \<Rightarrow> string" where
  "rec_sym e r =
     strip (py_str e (or_chain [dget r ''symbol'', dget r ''contract'', dget r ''ticker''] (JStr '''')))"

definition norm_sym :: "string \<Rightarrow> string" where
  "norm_sym s = map upper_char (filter is_alnum s)"

text \<open>The test that makes the loop \<^verbatim>\<open>continue\<close> past a record of another symbol.\<close>

definition foreign_rec :: "env \<Rightarrow> string \<Rightarrow> raw \<Rightarrow> bool" where
  "foreign_rec e req_norm r =
     (rec_sym e r \<noteq> [] \<and>
      (let rec_norm = norm_sym (rec_sym e r)
       in req_norm \<noteq> [] \<and> rec_norm \<noteq> [] \<and>
          (\<not> str_in req_norm rec_norm \<and> \<not> str_in rec_norm req_norm)))"

definition rec_typ :: "env \<Rightarrow> raw \<Rightarrow> string" where
  "rec_typ e r =
     lower (py_str e (or_chain
       [dget r ''incomeType'', dget r ''type'', dget r ''bizType'', dget r ''income_type''] (JStr '''')))"

definition rec_inc :: "env \<Rightarrow> raw \<Rightarrow> fl" where
  "rec_inc e r =
     asf e (or_chain [dget r ''income'', dget r ''profit'', dget r ''amount'', dget r ''realizedPnl'']
              (JInt 0)) (Fin 0)"

definition is_fee_typ :: "string \<Rightarrow> bool" where
  "is_fee_typ typ = list_ex (\<lambda>x. str_in x typ) [''commission'', ''fee'', ''funding'', ''fund'']"

text \<open>
  One turn of the loop over the records, on the three running sums
  \<open>(closed_sum, fee_funding_sum, realized_sum)\<close>.
\<close>

definition income_step :: "env \<Rightarrow> string \<Rightarrow> raw \<Rightarrow> fl \<times> fl \<times> fl \<Rightarrow> fl \<times> fl \<times> fl" where
  "income_step e req_norm r acc =
     (case acc of (closed_sum, fee_funding_sum, realized_sum) \<Rightarrow>
        if foreign_rec e req_norm r then acc
        else
          (let typ = rec_typ e r;
               inc = rec_inc e r;
               realized_sum' = fl_add realized_sum inc
           in if is_fee_typ typ then (closed_sum, fl_add fee_funding_sum inc, realized_sum')
              else (fl_add closed_sum inc, fee_funding_sum, realized_sum')))"

text \<open>
  \<^verbatim>\<open>_income_split(symbol, st, en)\<close>, the window given in milliseconds. \<open>None\<close> is the
  source's \<^verbatim>\<open>(None, None, None)\<close>.
\<close>

definition income_split :: "env \<Rightarrow> string \<Rightarrow> int \<Rightarrow> int \<Rightarrow> (fl \<times> fl \<times> fl) option" where
  "income_split e symbol st en =
     (let recs = fetch_income e symbol st en
      in if recs = [] then None
         else Some (fold (income_step e (norm_sym symbol)) recs (Fin 0, Fin 0, Fin 0)))"

text \<open>\<^verbatim>\<open>fee_calc\<close>: \<open>(closed_pnl, fee_funding, realized)\<close>.\<close>

definition fee_calc :: "env \<Rightarrow> string \<Rightarrow> int \<Rightarrow> int \<Rightarrow> fl \<Rightarrow> fl \<Rightarrow> fl \<Rightarrow> fl \<times> fl \<times> fl" where
  "fee_calc e symbol st en closed_est entry_v exit_v =
     (case income_split e symbol st en of
        Some (c, ff, realized_sum) \<Rightarrow> (c, ff, fl_add c ff)
      | None \<Rightarrow>
          (let ff = fl_mul (fl_neg (fl_add (fl_abs entry_v) (fl_abs exit_v))) (TAKER_FEE_RATE e)
           in (closed_est, ff, fl_add closed_est ff)))"

section \<open>Position Snapshot Normalizer\<close>

datatype side = Long | Short

datatype margin_mode = Cross | Isolated

datatype py_error = ZeroDivisionError

text \<open>The dictionary that \<^verbatim>\<open>norm_pos\<close> returns; each field carries the prefix \<open>p_\<close>.\<close>

record position =
  p_symbol :: string
  p_base :: string
  p_side :: side
  p_qty :: fl
  p_entry_price :: fl
  p_mark_price :: fl
  p_u_pnl :: fl
  p_r_pnl :: fl
  p_leverage :: fl
  p_margin_mode :: margin_mode
  p_value :: fl
  p_margin :: fl
  p_u_pnl_pct :: fl
  p_raw :: raw

definition ends_with :: "string \<Rightarrow> string \<Rightarrow> bool" where
  "ends_with s q = starts_with (rev q) (rev s)"

text \<open>\<^verbatim>\<open>base_asset\<close>.\<close>

definition base_asset :: "env \<Rightarrow> string \<Rightarrow> string" where
  "base_asset e symbol =
     (let s = upper_of e symbol in
      case filter (\<lambda>sep. sep \<in> set s) [CHR ''-'', CHR ''/'', CHR ''_''] of
        sep # _ \<Rightarrow> takeWhile (\<lambda>c. c \<noteq> sep) s
      | [] \<Rightarrow>
          (case filter (\<lambda>q. ends_with s q) [''USDT'', ''USD'', ''PERP'', ''.P''] of
             q # _ \<Rightarrow> (let t = take (length s - length q) s in if t = [] then s else t)
           | [] \<Rightarrow> s))"

definition side_of :: "string \<Rightarrow> fl \<Rightarrow> side" where
  "side_of sraw qty_signed =
     (if str_in ''short'' sraw \<or> sraw \<in> {''sell'', ''2''} then Short
      else if str_in ''long'' sraw \<or> sraw \<in> {''buy'', ''1''} then Long
      else if fl_lt qty_signed (Fin 0) then Short else Long)"

text \<open>
  \<^verbatim>\<open>norm_pos\<close>. \<open>Inr None\<close> is the source's \<^verbatim>\<open>return None\<close>; \<open>Inl\<close> is an
  exception leaving the function (its three divisions are the only operations that
  can raise).
\<close>

definition norm_pos :: "env \<Rightarrow> raw \<Rightarrow> py_error + position option" where
  "norm_pos e it =
     (let symbol = strip (py_str e (or_chain [dget it ''symbol'', dget it ''ticker'', dget it ''pair''] (JStr '''')))
      in if symbol = [] then Inr None
      else
       (let qty_signed = asf e (or_chain [dget it ''positionAmt'', dget it ''positionSize'',
                 dget it ''position'', dget it ''positionAmount'', dget it ''holdVolume'',
                 dget it ''size''] (JInt 0)) (Fin 0);
            sraw = lower (py_str e (or_chain [dget it ''positionSide'', dget it ''side'',
                 dget it ''holdSide'', dget it ''posSide''] (JStr '''')));
            sd = side_of sraw qty_signed;
            qty0 = fl_abs qty_signed;
            qty = (if fl_le qty0 (Fin 0)
                   then fl_abs (asf e (or_chain [dget it ''availableAmt''] (JInt 0)) (Fin 0))
                   else qty0)
        in if fl_le qty (Fin 0) then Inr None
        else
         (let entry = asf e (or_chain [dget it ''avgPrice'', dget it ''entryPrice'',
                   dget it ''avgOpenPrice'', dget it ''openPrice''] (JInt 0)) (Fin 0);
              mark = asf e (or_chain [dget it ''markPrice'', dget it ''lastPrice'',
                   dget it ''indexPrice'', dget it ''closePrice''] (JFloat entry)) entry;
              upl = asf e (or_chain [dget it ''unrealizedProfit'', dget it ''unRealizedProfit'',
                   dget it ''unrealizedPnl'', dget it ''upl'', dget it ''positionProfit''] (JInt 0)) (Fin 0);
              rpl = asf e (or_chain [dget it ''realizedProfit'', dget it ''realisedPnl'',
                   dget it ''realizedPnl'', dget it ''rpl''] (JInt 0)) (Fin 0);
              lev = asf e (or_chain [dget it ''leverage'', dget it ''positionLeverage''] (JInt 0)) (Fin 0);
              mm = py_str e (or_chain [dget it ''marginType'', dget it ''marginMode'',
                   dget it ''isolated''] (JStr ''''));
              mmode = (if str_in ''isol'' (lower mm) \<or> mm \<in> {''true'', ''1''} then Isolated else Cross);
              val = asf e (or_chain [dget it ''positionValue'', dget it ''notional'',
                   dget it ''positionNotional'', dget it ''value''] (JFloat (fl_mul qty mark)))
                   (fl_mul qty mark)
          in case (if fl_lt (Fin 0) lev then fl_div val lev else Some (Fin 0)) of
               None \<Rightarrow> Inl ZeroDivisionError
             | Some dm \<Rightarrow>
                (let mgn = asf e (or_chain [dget it ''positionMargin'', dget it ''isolatedMargin'',
                         dget it ''margin''] (JFloat dm)) dm
                 in case (if fl_le lev (Fin 0)
                          then (if fl_lt (Fin 0) mgn then fl_div val mgn else Some (Fin 1))
                          else Some lev) of
                      None \<Rightarrow> Inl ZeroDivisionError
                    | Some lev' \<Rightarrow>
                       (case (if mgn \<noteq> Fin 0
                              then map_option (\<lambda>x. fl_mul x (Fin 100)) (fl_div upl mgn)
                              else Some (Fin 0)) of
                          None \<Rightarrow> Inl ZeroDivisionError
                        | Some u_pct \<Rightarrow>
                            Inr (Some \<lparr>p_symbol = symbol, p_base = base_asset e symbol,
                              p_side = sd, p_qty = qty, p_entry_price = entry,
                              p_mark_price = mark, p_u_pnl = upl, p_r_pnl = rpl,
                              p_leverage = lev', p_margin_mode = mmode, p_value = val,
                              p_margin = mgn, p_u_pnl_pct = u_pct, p_raw = it\<rparr>))))))"

text \<open>\<^verbatim>\<open>fetch_positions\<close>, on the raw list that \<^verbatim>\<open>fetch_positions_raw\<close> returns.\<close>

fun fetch_positions :: "env \<Rightarrow> raw list \<Rightarrow> py_error + position list" where
  "fetch_positions e [] = Inr []"
| "fetch_positions e (it # its) =
     (case norm_pos e it of
        Inl err \<Rightarrow> Inl err
      | Inr n \<Rightarrow>
          (case fetch_positions e its of
             Inl err \<Rightarrow> Inl err
           | Inr out \<Rightarrow> Inr (case n of None \<Rightarrow> out | Some p \<Rightarrow> p # out)))"

section \<open>Session Ledger and durable store\<close>

text \<open>
  A Session Record, the dictionary kept under \<^verbatim>\<open>sess:position:KEY\<close>. The four
  \<open>last_\<close> fields are absent from the dictionaries that the source builds as a
  replacement for a missing record, hence optional. An instant is an integer, in
  milliseconds; the ISO text the source stores parses back to the same instant.
\<close>

record session =
  s_symbol :: string
  s_side :: side
  s_base :: string
  s_margin_mode :: margin_mode
  s_leverage :: fl
  start_ts :: int
  entry_price_init :: fl
  last_entry_price :: "fl option"
  total_entry_value :: fl
  total_exit_value :: fl
  last_qty :: "fl option"
  last_mark_price :: "fl option"
  last_r_pnl :: "fl option"

text \<open>A finalized Trade, the \<^verbatim>\<open>row\<close> of the close loop.\<close>

record trade =
  t_symbol :: string
  t_side :: side
  t_start_ts :: int
  close_ts :: int
  t_entry_price :: fl
  close_price :: fl
  t_total_entry_value :: fl
  t_total_exit_value :: fl
  closed_pnl :: fl
  fee_funding :: fl
  realized :: fl
  t_margin_mode :: margin_mode
  t_leverage :: fl

type_synonym snapshot = "(string \<times> position) list"

text \<open>
  The commands the cycle sends to the store, and the messages it hands to
  \<^verbatim>\<open>send_pos_alert\<close> (the arguments of the four templates).
\<close>

datatype cmd =
    GET_init
  | SET_init string
  | GET_open
  | SET_open snapshot
  | GET_sess string
  | SET_sess string session
  | DEL_sess string
  | LPUSH int trade
  | LTRIM int nat

datatype alert =
    Alert_open position
  | Alert_add position position
  | Alert_reduce position position
  | Alert_close trade

text \<open>
  The world outside the cycle: the four kinds of keys of the store (the values are kept
  as the data that their JSON text encodes), the commands sent so far, each with its
  outcome, and the alerts handed over so far. The history is keyed by the day of the
  close. A command that fails changes nothing and answers None.
\<close>

record world =
  open_positions :: "snapshot option"
  init_flag :: "string option"
  sessions :: "string \<Rightarrow> session option"
  history :: "int \<Rightarrow> trade list"
  issued :: "(cmd \<times> bool) list"
  sent :: "alert list"

definition succeeds :: "env \<Rightarrow> world \<Rightarrow> bool" where
  "succeeds e w = available e (length (issued w))"

definition logged :: "cmd \<Rightarrow> bool \<Rightarrow> world \<Rightarrow> world" where
  "logged c b w = w\<lparr>issued := issued w @ [(c, b)]\<rparr>"

text \<open>\<^verbatim>\<open>pkey\<close>.\<close>

definition side_str :: "side \<Rightarrow> string" where
  "side_str sd = (case sd of Long \<Rightarrow> ''Long'' | Short \<Rightarrow> ''Short'')"

definition pkey :: "string \<Rightarrow> side \<Rightarrow> string" where
  "pkey symbol sd = symbol @ ''|'' @ side_str sd"

text \<open>\<^verbatim>\<open>open_state\<close>: the stored snapshot, the empty one when the read gives nothing.\<close>

definition open_state :: "env \<Rightarrow> world \<Rightarrow> snapshot \<times> world" where
  "open_state e w =
     (let b = succeeds e w
      in (case (if b then open_positions w else None) of None \<Rightarrow> [] | Some m \<Rightarrow> m,
          logged GET_open b w))"

definition save_open_state :: "env \<Rightarrow> snapshot \<Rightarrow> world \<Rightarrow> world" where
  "save_open_state e m w =
     (let b = succeeds e w
      in logged (SET_open m) b (if b then w\<lparr>open_positions := Some m\<rparr> else w))"

definition init_done :: "env \<Rightarrow> world \<Rightarrow> bool \<times> world" where
  "init_done e w =
     (let b = succeeds e w
      in ((case (if b then init_flag w else None) of None \<Rightarrow> '''' | Some v \<Rightarrow> v) = ''1'',
          logged GET_init b w))"

definition mark_init_done :: "env \<Rightarrow> world \<Rightarrow> world" where
  "mark_init_done e w =
     (let b = succeeds e w
      in logged (SET_init ''1'') b (if b then w\<lparr>init_flag := Some ''1''\<rparr> else w))"

definition sess_get :: "env \<Rightarrow> string \<Rightarrow> world \<Rightarrow> session option \<times> world" where
  "sess_get e k w =
     (let b = succeeds e w
      in (if b then sessions w k else None, logged (GET_sess k) b w))"

definition sess_set :: "env \<Rightarrow> string \<Rightarrow> session \<Rightarrow> world \<Rightarrow> world" where
  "sess_set e k v w =
     (let b = succeeds e w
      in logged (SET_sess k v) b (if b then w\<lparr>sessions := (sessions w)(k \<mapsto> v)\<rparr> else w))"

definition sess_del :: "env \<Rightarrow> string \<Rightarrow> world \<Rightarrow> world" where
  "sess_del e k w =
     (let b = succeeds e w
      in logged (DEL_sess k) b (if b then w\<lparr>sessions := (sessions w)(k := None)\<rparr> else w))"

text \<open>
  \<^verbatim>\<open>hist_push\<close>: the day of the close in the zone nine hours east of UTC names the
  list; \<^verbatim>\<open>rpush_json\<close> sends LPUSH, then LTRIM to the first 5000 entries.
\<close>

definition kst_day :: "int \<Rightarrow> int" where
  "kst_day ts = (ts + 32400000) div 86400000"

definition hist_push :: "env \<Rightarrow> trade \<Rightarrow> world \<Rightarrow> world" where
  "hist_push e tr w =
     (let d = kst_day (close_ts tr);
          b1 = succeeds e w;
          w1 = logged (LPUSH d tr) b1
                 (if b1 then w\<lparr>history := (history w)(d := tr # history w d)\<rparr> else w);
          b2 = succeeds e w1
      in logged (LTRIM d 5000) b2
           (if b2 then w1\<lparr>history := (history w1)(d := take 5000 (history w1 d))\<rparr> else w1))"

text \<open>
  \<^verbatim>\<open>send_pos_alert\<close>: the message is handed to the alerting layer. Which chats
  receive it and whether the delivery succeeds is that layer's concern.
\<close>

definition send_pos_alert :: "alert \<Rightarrow> world \<Rightarrow> world" where
  "send_pos_alert a w = w\<lparr>sent := sent w @ [a]\<rparr>"

section \<open>Lifecycle Diff Classifier\<close>

text \<open>
  \<^verbatim>\<open>float(f"{x:.8f}")\<close>: the nearest multiple of \<open>10\<^sup>-\<^sup>8\<close>, a tie going to the even
  one; infinities and NaN print and parse back as themselves.
\<close>

definition round_half_even :: "rat \<Rightarrow> int" where
  "round_half_even x =
     (let f = \<lfloor>x\<rfloor>; d = x - of_int f
      in if d < 1 / 2 then f else if 1 / 2 < d then f + 1 else if even f then f else f + 1)"

definition round8 :: "fl \<Rightarrow> fl" where
  "round8 x = (case x of Fin a \<Rightarrow> Fin (of_int (round_half_even (a * 10 ^ 8)) / 10 ^ 8) | _ \<Rightarrow> x)"

text \<open>The tolerance \<^verbatim>\<open>1e-12\<close> of the quantity comparison.\<close>

definition eps :: fl where
  "eps = Fin (1 / 10 ^ 12)"

record events =
  n_open :: nat
  n_add :: nat
  n_reduce :: nat
  n_close :: nat

definition no_events :: events where
  "no_events = \<lparr>n_open = 0, n_add = 0, n_reduce = 0, n_close = 0\<rparr>"

text \<open>The dictionary that \<^verbatim>\<open>process_positions\<close> returns.\<close>

record result =
  ok :: bool
  initial_sync :: bool
  positions_now :: nat
  evs :: events
  closed_trades :: "trade list"

text \<open>
  The Session Record written for a position seen for the first time (the same
  dictionary in the initial sync and in the open branch), the replacement for a
  missing record of a position that stays, and the one for a position that closes.
\<close>

definition fresh_session :: "int \<Rightarrow> position \<Rightarrow> session" where
  "fresh_session now p =
     \<lparr>s_symbol = p_symbol p, s_side = p_side p, s_base = p_base p,
      s_margin_mode = p_margin_mode p, s_leverage = p_leverage p, start_ts = now,
      entry_price_init = p_entry_price p, last_entry_price = Some (p_entry_price p),
      total_entry_value = p_value p, total_exit_value = Fin 0,
      last_qty = Some (p_qty p), last_mark_price = Some (p_mark_price p),
      last_r_pnl = Some (p_r_pnl p)\<rparr>"

definition bare_session :: "int \<Rightarrow> position \<Rightarrow> session" where
  "bare_session now p =
     \<lparr>s_symbol = p_symbol p, s_side = p_side p, s_base = p_base p,
      s_margin_mode = p_margin_mode p, s_leverage = p_leverage p, start_ts = now,
      entry_price_init = p_entry_price p, last_entry_price = None,
      total_entry_value = p_value p, total_exit_value = Fin 0,
      last_qty = None, last_mark_price = None, last_r_pnl = None\<rparr>"

text \<open>The \<^verbatim>\<open>s.update(...)\<close> that ends the branch of a position that stays.\<close>

definition refresh :: "position \<Rightarrow> session \<Rightarrow> session" where
  "refresh p s =
     s\<lparr>last_qty := Some (p_qty p), last_mark_price := Some (p_mark_price p),
       last_entry_price := Some (p_entry_price p), last_r_pnl := Some (p_r_pnl p),
       s_margin_mode := p_margin_mode p, s_leverage := p_leverage p\<rparr>"

text \<open>
  \<^verbatim>\<open>_rpnL_since\<close> and the copy \<^verbatim>\<open>p_show\<close> of the position that the alert shows.
\<close>

definition rpnl_since :: "env \<Rightarrow> string \<Rightarrow> int \<Rightarrow> int \<Rightarrow> fl option" where
  "rpnl_since e symbol st now =
     (case income_split e symbol st now of
        None \<Rightarrow> None
      | Some (c, ff, realized_sum) \<Rightarrow> Some realized_sum)"

definition p_show :: "env \<Rightarrow> position \<Rightarrow> int \<Rightarrow> int \<Rightarrow> position" where
  "p_show e p st now =
     (case rpnl_since e (p_symbol p) st now of None \<Rightarrow> p | Some rp \<Rightarrow> p\<lparr>p_r_pnl := rp\<rparr>)"

text \<open>
  The body of the first loop, over the items \<open>(k, p)\<close> of the current snapshot:
  open, add, reduce, or neither.
\<close>

definition touch_one ::
  "env \<Rightarrow> bool \<Rightarrow> int \<Rightarrow> snapshot \<Rightarrow> string \<times> position \<Rightarrow> events \<times> world \<Rightarrow> events \<times> world" where
  "touch_one e send_alert now prev kp acc =
     (case kp of (k, p) \<Rightarrow> case acc of (ev, w) \<Rightarrow>
      (case map_of prev k of
         None \<Rightarrow>
           (let ev1 = ev\<lparr>n_open := n_open ev + 1\<rparr>;
                w1 = sess_set e k (fresh_session now p) w
            in (ev1, if send_alert then send_pos_alert (Alert_open (p_show e p now now)) w1 else w1))
       | Some po \<Rightarrow>
           (let q0 = p_qty po; q1 = p_qty p;
                (got, w1) = sess_get e k w;
                s = (case got of Some s \<Rightarrow> s | None \<Rightarrow> bare_session now p)
            in if fl_lt (fl_add q0 eps) q1 then
                 (let dv = py_max (fl_sub (p_value p) (p_value po))
                                  (fl_mul (fl_sub q1 q0) (p_entry_price p));
                      s1 = s\<lparr>total_entry_value := fl_add (total_entry_value s) (py_max dv (Fin 0))\<rparr>;
                      w2 = (if send_alert
                            then send_pos_alert (Alert_add po (p_show e p (start_ts s1) now)) w1
                            else w1)
                  in (ev\<lparr>n_add := n_add ev + 1\<rparr>, sess_set e k (refresh p s1) w2))
               else if fl_lt (fl_add q1 eps) q0 then
                 (let rq = fl_sub q0 q1;
                      rv = py_max (fl_sub (p_value po) (p_value p)) (fl_mul rq (p_mark_price p));
                      s1 = s\<lparr>total_exit_value := fl_add (total_exit_value s) (py_max rv (Fin 0))\<rparr>;
                      w2 = (if send_alert
                            then send_pos_alert (Alert_reduce po (p_show e p (start_ts s1) now)) w1
                            else w1)
                  in (ev\<lparr>n_reduce := n_reduce ev + 1\<rparr>, sess_set e k (refresh p s1) w2))
               else (ev, sess_set e k (refresh p s) w1))))"

text \<open>
  The close loop. The replacement for a missing record of a position that closes,
  the closed-PnL estimate handed to \<^verbatim>\<open>fee_calc\<close>, and the row.
\<close>

definition closing_session :: "int \<Rightarrow> position \<Rightarrow> session" where
  "closing_session now po =
     \<lparr>s_symbol = p_symbol po, s_side = p_side po, s_base = p_base po,
      s_margin_mode = p_margin_mode po, s_leverage = p_leverage po, start_ts = now,
      entry_price_init = p_entry_price po, last_entry_price = None,
      total_entry_value = p_value po, total_exit_value = Fin 0,
      last_qty = None, last_mark_price = None, last_r_pnl = None\<rparr>"

definition close_p :: "position \<Rightarrow> fl" where
  "close_p po = (if p_mark_price po \<noteq> Fin 0 then p_mark_price po else p_entry_price po)"

definition closed_estimate :: "side \<Rightarrow> fl \<Rightarrow> fl \<Rightarrow> fl" where
  "closed_estimate sd tv_in tv_out =
     (if sd = Long then fl_sub tv_out tv_in else fl_sub tv_in tv_out)"

definition close_row :: "env \<Rightarrow> int \<Rightarrow> session \<Rightarrow> position \<Rightarrow> trade" where
  "close_row e now s0 po =
     (let remain_qty = p_qty po;
          s = s0\<lparr>total_exit_value :=
                 fl_add (total_exit_value s0) (py_max (fl_mul remain_qty (close_p po)) (Fin 0))\<rparr>;
          tv_in = total_entry_value s; tv_out = total_exit_value s;
          closed_est = closed_estimate (s_side s) tv_in tv_out;
          st = start_ts s; en = now;
          (cp, fee, rl) = fee_calc e (s_symbol s) st en closed_est tv_in tv_out
      in \<lparr>t_symbol = s_symbol s, t_side = s_side s, t_start_ts = start_ts s, close_ts = en,
          t_entry_price = entry_price_init s, close_price = close_p po,
          t_total_entry_value = tv_in, t_total_exit_value = tv_out,
          closed_pnl = round8 cp, fee_funding = round8 fee, realized = round8 rl,
          t_margin_mode = s_margin_mode s, t_leverage = s_leverage s\<rparr>)"

definition close_one ::
  "env \<Rightarrow> bool \<Rightarrow> int \<Rightarrow> snapshot \<Rightarrow> string \<times> position \<Rightarrow>
     events \<times> trade list \<times> world \<Rightarrow> events \<times> trade list \<times> world" where
  "close_one e send_alert now cur ko acc =
     (case ko of (k, po) \<Rightarrow> case acc of (ev, closed_rows, w) \<Rightarrow>
      if k \<in> fst ` set cur then acc
      else
        (let (got, w1) = sess_get e k w;
             s = (case got of Some s \<Rightarrow> s | None \<Rightarrow> closing_session now po);
             row = close_row e now s po;
             w2 = hist_push e row w1;
             w3 = (if send_alert then send_pos_alert (Alert_close row) w2 else w2)
         in (ev\<lparr>n_close := n_close ev + 1\<rparr>, closed_rows @ [row], sess_del e k w3)))"

text \<open>
  The current snapshot: \<^verbatim>\<open>cur[pkey(p["symbol"], p["side"])] = p\<close> for each position
  in turn. A key seen again keeps its place and takes the later position.
\<close>

definition snapshot_of :: "position list \<Rightarrow> snapshot" where
  "snapshot_of ps = fold (\<lambda>p m. AList.update (pkey (p_symbol p) (p_side p)) p m) ps []"

text \<open>
  \<^verbatim>\<open>process_positions\<close>, on the positions \<open>ps\<close> that \<^verbatim>\<open>fetch_positions()\<close>
  returned and the instant \<open>now\<close> of the cycle (every \<^verbatim>\<open>now_kst()\<close> of one cycle
  reads this one instant).
\<close>

definition process_positions ::
  "env \<Rightarrow> bool \<Rightarrow> int \<Rightarrow> position list \<Rightarrow> world \<Rightarrow> result \<times> world" where
  "process_positions e send_alert now ps w =
     (let cur = snapshot_of ps;
          (prev, w0) = open_state e w;
          (synced, w1) = init_done e w0
      in if \<not> synced then
           (let w2 = fold (\<lambda>(k, p). sess_set e k (fresh_session now p)) cur w1;
                w3 = save_open_state e cur w2;
                w4 = mark_init_done e w3
            in (\<lparr>ok = True, initial_sync = True, positions_now = length cur,
                 evs = no_events, closed_trades = []\<rparr>, w4))
         else
           (let (ev1, w2) = fold (touch_one e send_alert now prev) cur (no_events, w1);
                (ev2, closed_rows, w3) = fold (close_one e send_alert now cur) prev (ev1, [], w2);
                w4 = save_open_state e cur w3
            in (\<lparr>ok = True, initial_sync = False, positions_now = length cur,
                 evs = ev2, closed_trades = closed_rows\<rparr>, w4)))"

section \<open>Concrete data\<close>

text \<open>
  An environment in which the exchange has no settlement records, the store is
  available and the fee rate is the default \<^verbatim>\<open>0.0005\<close>; the library functions it
  carries are not exercised by the data below, whose fields are numbers and strings.
\<close>

definition env0 :: env where
  "env0 = \<lparr>float_of_str = (\<lambda>s. None), str_of = (\<lambda>v. ''''), upper_of = map upper_char,
           fetch_income = (\<lambda>s a b. []), TAKER_FEE_RATE = Fin (1 / 2000),
           available = (\<lambda>n. True)\<rparr>"

definition eth_rec :: raw where
  "eth_rec = [(''symbol'', JStr ''ETH-USDT''), (''incomeType'', JStr ''REALIZED_PNL''),
              (''income'', JFloat (Fin 50))]"

definition btc_rec :: raw where
  "btc_rec = [(''symbol'', JStr ''BTC-USDT''), (''incomeType'', JStr ''REALIZED_PNL''),
              (''income'', JFloat (Fin 7))]"

definition btc_fee :: raw where
  "btc_fee = [(''symbol'', JStr ''BTC-USDT''), (''incomeType'', JStr ''TRADING_FEE''),
              (''income'', JFloat (Fin (- 1)))]"


definition env_mixed :: env where
  "env_mixed = env0\<lparr>fetch_income := (\<lambda>s a b. [btc_rec, eth_rec, btc_fee])\<rparr>"




text \<open>
  A position of BTC-USDT with entry price 100, and three states of the store: a
  fresh one, one that is synced and flat, and one that is synced and holds a long
  position of quantity 1 with its Session Record, opened at the instant 1000.
\<close>

definition btc_pos :: "side \<Rightarrow> rat \<Rightarrow> rat \<Rightarrow> position" where
  "btc_pos sd q mk =
     \<lparr>p_symbol = ''BTC-USDT'', p_base = ''BTC'', p_side = sd, p_qty = Fin q,
      p_entry_price = Fin 100, p_mark_price = Fin mk, p_u_pnl = Fin 0, p_r_pnl = Fin 0,
      p_leverage = Fin 1, p_margin_mode = Cross, p_value = Fin (q * mk),
      p_margin = Fin (q * mk), p_u_pnl_pct = Fin 0, p_raw = []\<rparr>"

definition world_fresh :: world where
  "world_fresh = \<lparr>open_positions = None, init_flag = None, sessions = (\<lambda>k. None),
                  history = (\<lambda>d. []), issued = [], sent = []\<rparr>"



text \<open>
  Two settlement records of four billionths each, one a realized PnL and one a
  funding fee; a store that answers the two reads of a cycle and then fails; a store
  that fails the fourth command only.
\<close>

definition tiny_pnl :: raw where
  "tiny_pnl = [(''symbol'', JStr ''BTC-USDT''), (''incomeType'', JStr ''REALIZED_PNL''),
               (''income'', JFloat (Fin (4 / 10 ^ 9)))]"

definition tiny_fee :: raw where
  "tiny_fee = [(''symbol'', JStr ''BTC-USDT''), (''incomeType'', JStr ''FUNDING_FEE''),
               (''income'', JFloat (Fin (4 / 10 ^ 9)))]"

definition env_tiny :: env where
  "env_tiny = env0\<lparr>fetch_income := (\<lambda>s a b. [tiny_pnl, tiny_fee])\<rparr>"


definition env_reads_only :: env where
  "env_reads_only = env0\<lparr>available := (\<lambda>n. n < 2)\<rparr>"

definition env_push_fails :: env where
  "env_push_fails = env0\<lparr>available := (\<lambda>n. n \<noteq> 3)\<rparr>"

definition nan_raw :: raw where
  "nan_raw = [(''symbol'', JStr ''BTC-USDT''), (''positionAmt'', JFloat NaN)]"



section \<open>Properties of the Settlement Reconciler\<close>

lemma str_in_Nil [simp]: "str_in [] ys"
  by (induction ys) auto

lemma norm_sym_Nil [simp]: "norm_sym [] = []"
  by (simp add: norm_sym_def)

lemma foreign_recI:
  assumes "\<not> str_in req_norm (norm_sym (rec_sym e r))"
      and "\<not> str_in (norm_sym (rec_sym e r)) req_norm"
  shows "foreign_rec e req_norm r"
proof -
  have a: "norm_sym (rec_sym e r) \<noteq> []" using assms(2) by auto
  then have b: "rec_sym e r \<noteq> []" by auto
  have c: "req_norm \<noteq> []" using assms(1) by auto
  show ?thesis using a b c assms by (simp add: foreign_rec_def)
qed

text \<open>
  C4. When the settlement source returns no record, \<^verbatim>\<open>fee_calc\<close> answers with the
  fallback estimator: the closed PnL is the caller's estimate, the fee and funding is
  minus the sum of the absolute entry and exit values times the taker fee rate, and
  the realized value is the sum of the two.
\<close>

theorem fee_calc_fallback:
  assumes "fetch_income e symbol st en = []"
  shows "fee_calc e symbol st en closed_est entry_v exit_v =
     (closed_est,
      fl_mul (fl_neg (fl_add (fl_abs entry_v) (fl_abs exit_v))) (TAKER_FEE_RATE e),
      fl_add closed_est
        (fl_mul (fl_neg (fl_add (fl_abs entry_v) (fl_abs exit_v))) (TAKER_FEE_RATE e)))"
  using assms by (simp add: fee_calc_def income_split_def Let_def)

theorem fee_calc_fallback_witness:
  "fetch_income env0 ''BTC-USDT'' 0 1 = [] \<and>
   fee_calc env0 ''BTC-USDT'' 0 1 (Fin 100) (Fin 1000) (Fin 1100)
     = (Fin 100, Fin (- (21 / 20)), Fin (1979 / 20))"
proof -
  have h: "fetch_income env0 ''BTC-USDT'' 0 1 = []" by (simp add: env0_def)
  have r: "TAKER_FEE_RATE env0 = Fin (1 / 2000)" by (simp add: env0_def)
  show ?thesis
    using h fee_calc_fallback [OF h, of "Fin 100" "Fin 1000" "Fin 1100"] by (simp add: r)
qed

text \<open>
  C5. A settlement record whose normalized symbol neither contains nor is contained in
  the normalized requested symbol adds nothing to the three sums: the split of a
  response that holds such a record is the split of the response without it. So a
  record of ETH-USDT adds nothing to a reconciliation of BTC-USDT.
\<close>

theorem foreign_symbol_contributes_nothing:
  assumes "fetch_income e symbol st en = xs @ r # ys"
      and "\<not> str_in (norm_sym symbol) (norm_sym (rec_sym e r))"
      and "\<not> str_in (norm_sym (rec_sym e r)) (norm_sym symbol)"
  shows "income_split e symbol st en =
           Some (fold (income_step e (norm_sym symbol)) (xs @ ys) (Fin 0, Fin 0, Fin 0))"
proof -
  have "foreign_rec e (norm_sym symbol) r"
    using assms(2,3) by (rule foreign_recI)
  then have "income_step e (norm_sym symbol) r acc = acc" for acc
    by (cases acc) (simp add: income_step_def)
  then show ?thesis using assms(1) by (simp add: income_split_def)
qed

theorem foreign_symbol_contributes_nothing_witness:
  "fetch_income env_mixed ''BTC-USDT'' 0 1 = [btc_rec] @ eth_rec # [btc_fee] \<and>
   \<not> str_in (norm_sym ''BTC-USDT'') (norm_sym (rec_sym env_mixed eth_rec)) \<and>
   \<not> str_in (norm_sym (rec_sym env_mixed eth_rec)) (norm_sym ''BTC-USDT'') \<and>
   income_split env_mixed ''BTC-USDT'' 0 1 = Some (Fin 7, Fin (- 1), Fin 6)"
proof -
  have h1: "fetch_income env_mixed ''BTC-USDT'' 0 1 = [btc_rec] @ eth_rec # [btc_fee]"
    by (simp add: env_mixed_def)
  have h2: "\<not> str_in (norm_sym ''BTC-USDT'') (norm_sym (rec_sym env_mixed eth_rec))"
    by code_simp
  have h3: "\<not> str_in (norm_sym (rec_sym env_mixed eth_rec)) (norm_sym ''BTC-USDT'')"
    by code_simp
  have v: "fold (income_step env_mixed (norm_sym ''BTC-USDT'')) ([btc_rec] @ [btc_fee])
             (Fin 0, Fin 0, Fin 0) = (Fin 7, Fin (- 1), Fin 6)"
    by code_simp
  show ?thesis
    using h1 h2 h3 foreign_symbol_contributes_nothing [OF h1 h2 h3] v by simp
qed



section \<open>Properties of the close loop\<close>










subsection \<open>Running the cycle on concrete data\<close>


lemma available_env0 [simp]: "available env0 n"
  by (simp add: env0_def)

lemma available_env_tiny [simp]: "available env_tiny n"
  by (simp add: env_tiny_def)

lemma available_env_reads_only [simp]: "available env_reads_only n = (n < 2)"
  by (simp add: env_reads_only_def)

lemma available_env_push_fails [simp]: "available env_push_fails n = (n \<noteq> 3)"
  by (simp add: env_push_fails_def)

lemma snapshot_of_Nil [simp]: "snapshot_of [] = []"
  by (simp add: snapshot_of_def)

lemma snapshot_of_btc:
  "snapshot_of [btc_pos sd q mk] = [(''BTC-USDT'' @ ''|'' @ side_str sd, btc_pos sd q mk)]"
  by (simp add: snapshot_of_def pkey_def btc_pos_def)







text \<open>
  The estimate reaches the row: when the settlement source has no record, the stored
  closed_pnl is the rounded estimate taken on the stored entry and exit values.
\<close>

lemma close_row_estimate:
  assumes "fetch_income e (s_symbol s) (start_ts s) now = []"
  shows "closed_pnl (close_row e now s po) =
           round8 (closed_estimate (s_side s) (t_total_entry_value (close_row e now s po))
                     (t_total_exit_value (close_row e now s po)))"
  using assms by (simp add: close_row_def fee_calc_def income_split_def Let_def)

section \<open>Properties of the cycle under store failures\<close>




subsection \<open>The order of the commands of a cycle\<close>












section \<open>Properties of the initial sync\<close>

lemma distinct_snapshot_of: "distinct (map fst (snapshot_of ps))"
proof -
  have "distinct (map fst m) \<Longrightarrow>
        distinct (map fst (fold (\<lambda>p m. AList.update (pkey (p_symbol p) (p_side p)) p m) ps m))"
    for m :: snapshot
    by (induction ps arbitrary: m) (simp_all add: distinct_update)
  from this [of "[]"] show ?thesis by (simp add: snapshot_of_def)
qed

lemma init_done_unset:
  "init_flag w \<noteq> Some ''1'' \<Longrightarrow> \<not> fst (init_done e w)"
  by (auto simp: init_done_def Let_def split: option.splits)

lemma open_state_keeps:
  "init_flag (snd (open_state e w)) = init_flag w \<and> sent (snd (open_state e w)) = sent w \<and>
   sessions (snd (open_state e w)) = sessions w \<and> history (snd (open_state e w)) = history w \<and>
   open_positions (snd (open_state e w)) = open_positions w"
  by (simp add: open_state_def logged_def Let_def)

lemma init_done_keeps:
  "init_flag (snd (init_done e w)) = init_flag w \<and> sent (snd (init_done e w)) = sent w \<and>
   sessions (snd (init_done e w)) = sessions w \<and> history (snd (init_done e w)) = history w \<and>
   open_positions (snd (init_done e w)) = open_positions w"
  by (simp add: init_done_def logged_def Let_def)

lemma fold_seed_sent:
  "sent (fold (\<lambda>(k, p). sess_set e k (fresh_session now p)) xs w) = sent w"
  by (induction xs arbitrary: w) (auto simp: sess_set_def logged_def Let_def)

lemma fold_seed_sessions:
  assumes "\<forall>n. available e n" "distinct (map fst xs)"
  shows "sessions (fold (\<lambda>(k, p). sess_set e k (fresh_session now p)) xs w) k =
           (case map_of xs k of None \<Rightarrow> sessions w k | Some p \<Rightarrow> Some (fresh_session now p))"
  using assms(2)
proof (induction xs arbitrary: w)
  case Nil
  then show ?case by simp
next
  case (Cons x xs)
  obtain k' p' where x: "x = (k', p')" by (cases x)
  have s: "sessions (sess_set e k' (fresh_session now p') w) = (sessions w)(k' \<mapsto> fresh_session now p')"
    using assms(1) by (simp add: sess_set_def succeeds_def logged_def Let_def)
  have n: "map_of xs k' = None" using Cons.prems x by (simp add: map_of_eq_None_iff)
  show ?case
    using Cons.prems x n by (simp add: Cons.IH s split: option.splits)
qed

text \<open>
  C2. When the initial-sync flag is unset, a cycle returns zero counts for open, add,
  reduce and close and no Trade, and hands over no alert; and when the store takes
  its commands, the cycle leaves the current snapshot stored as the previous one, the
  flag set, and one Session Record under each key of the current snapshot, seeded
  with the position's entry price, its notional as total entry value, and a total
  exit value of zero.
\<close>

theorem initial_sync_cycle:
  assumes "init_flag w \<noteq> Some ''1''"
  shows "n_open (evs (fst (process_positions e send_alert now ps w))) = 0 \<and>
         n_add (evs (fst (process_positions e send_alert now ps w))) = 0 \<and>
         n_reduce (evs (fst (process_positions e send_alert now ps w))) = 0 \<and>
         n_close (evs (fst (process_positions e send_alert now ps w))) = 0 \<and>
         closed_trades (fst (process_positions e send_alert now ps w)) = [] \<and>
         positions_now (fst (process_positions e send_alert now ps w)) = length (snapshot_of ps) \<and>
         sent (snd (process_positions e send_alert now ps w)) = sent w \<and>
         ((\<forall>n. available e n) \<longrightarrow>
            open_positions (snd (process_positions e send_alert now ps w)) = Some (snapshot_of ps) \<and>
            init_flag (snd (process_positions e send_alert now ps w)) = Some ''1'' \<and>
            (\<forall>k p. (k, p) \<in> set (snapshot_of ps) \<longrightarrow>
               sessions (snd (process_positions e send_alert now ps w)) k = Some (fresh_session now p) \<and>
               entry_price_init (fresh_session now p) = p_entry_price p \<and>
               total_entry_value (fresh_session now p) = p_value p \<and>
               total_exit_value (fresh_session now p) = Fin 0) \<and>
            (\<forall>k. k \<notin> fst ` set (snapshot_of ps) \<longrightarrow>
               sessions (snd (process_positions e send_alert now ps w)) k = sessions w k))"
proof -
  define cur where "cur = snapshot_of ps"
  obtain prev w0 where o: "open_state e w = (prev, w0)" by (cases "open_state e w")
  obtain synced w1 where i: "init_done e w0 = (synced, w1)" by (cases "init_done e w0")
  define w2 where "w2 = fold (\<lambda>(k, p). sess_set e k (fresh_session now p)) cur w1"
  have k0: "init_flag w0 = init_flag w" "sent w0 = sent w" "sessions w0 = sessions w"
    using open_state_keeps [of e w] o by simp_all
  have u: "\<not> synced"
    using init_done_unset [of w0 e] assms k0 i by simp
  have r: "process_positions e send_alert now ps w =
      (\<lparr>ok = True, initial_sync = True, positions_now = length cur, evs = no_events,
        closed_trades = []\<rparr>, mark_init_done e (save_open_state e cur w2))"
    using o i u by (simp add: process_positions_def cur_def w2_def Let_def)
  have k1: "sent w1 = sent w" "sessions w1 = sessions w"
    using init_done_keeps [of e w0] i k0 by simp_all
  have s: "sent (mark_init_done e (save_open_state e cur w2)) = sent w"
    by (simp add: mark_init_done_def save_open_state_def logged_def Let_def w2_def fold_seed_sent k1)
  have d: "distinct (map fst cur)" unfolding cur_def by (rule distinct_snapshot_of)
  have a: "open_positions (mark_init_done e (save_open_state e cur w2)) = Some cur \<and>
           init_flag (mark_init_done e (save_open_state e cur w2)) = Some ''1'' \<and>
           sessions (mark_init_done e (save_open_state e cur w2)) = sessions w2"
    if "\<forall>n. available e n"
    using that by (simp add: mark_init_done_def save_open_state_def succeeds_def logged_def Let_def)
  have b: "sessions w2 k = (case map_of cur k of None \<Rightarrow> sessions w k | Some p \<Rightarrow> Some (fresh_session now p))"
    if "\<forall>n. available e n" for k
    unfolding w2_def using fold_seed_sessions [OF that d, of now w1 k] by (simp add: k1 split: option.splits)
  have c1: "sessions w2 k = Some (fresh_session now p)"
    if "\<forall>n. available e n" "(k, p) \<in> set cur" for k p
    using b [OF that(1), of k] map_of_is_SomeI [OF d that(2)] by simp
  have c2: "sessions w2 k = sessions w k"
    if "\<forall>n. available e n" "k \<notin> fst ` set cur" for k
  proof -
    have "map_of cur k = None" using that(2) by (simp add: map_of_eq_None_iff)
    then show ?thesis using b [OF that(1), of k] by simp
  qed
  show ?thesis
    unfolding r cur_def [symmetric]
    using s a c1 c2 by (simp add: no_events_def fresh_session_def)
qed

theorem initial_sync_cycle_witness:
  "init_flag world_fresh \<noteq> Some ''1'' \<and>
   evs (fst (process_positions env0 True 1000 [btc_pos Long 1 100] world_fresh)) = no_events \<and>
   closed_trades (fst (process_positions env0 True 1000 [btc_pos Long 1 100] world_fresh)) = [] \<and>
   sent (snd (process_positions env0 True 1000 [btc_pos Long 1 100] world_fresh)) = [] \<and>
   open_positions (snd (process_positions env0 True 1000 [btc_pos Long 1 100] world_fresh))
     = Some [(''BTC-USDT|Long'', btc_pos Long 1 100)] \<and>
   init_flag (snd (process_positions env0 True 1000 [btc_pos Long 1 100] world_fresh)) = Some ''1'' \<and>
   sessions (snd (process_positions env0 True 1000 [btc_pos Long 1 100] world_fresh)) ''BTC-USDT|Long''
     = Some (fresh_session 1000 (btc_pos Long 1 100))"
proof -
  have h: "init_flag world_fresh \<noteq> Some ''1''" by (simp add: world_fresh_def)
  have s: "sent world_fresh = []" by (simp add: world_fresh_def)
  have c: "snapshot_of [btc_pos Long 1 100] = [(''BTC-USDT|Long'', btc_pos Long 1 100)]"
    by (simp add: snapshot_of_btc side_str_def)
  show ?thesis
    using h initial_sync_cycle [OF h, of env0 True 1000 "[btc_pos Long 1 100]"]
    by (cases "evs (fst (process_positions env0 True 1000 [btc_pos Long 1 100] world_fresh))")
       (simp add: s c no_events_def)
qed

section \<open>Properties of a cycle without changes\<close>








section \<open>Properties of the Normalizer\<close>

text \<open>
  C9 at the raw record \<^verbatim>\<open>{"symbol": "BTC-USDT", "positionAmt": NaN}\<close>: the quantity
  NaN is not \<open>\<le> 0\<close>, so \<^verbatim>\<open>norm_pos\<close> returns a Position, and its quantity is not
  strictly positive.
\<close>

theorem norm_pos_nan_quantity:
  "map_sum id (map_option p_qty) (norm_pos env0 nan_raw) = Inr (Some NaN) \<and> \<not> fl_lt (Fin 0) NaN"
  by code_simp

end
